theory Spec2Isabelle
  imports Complex_Main
begin

section \<open>Exceptions\<close>

text \<open>
  Every exception the modelled methods can raise is a value of \<open>error\<close>. A method that
  only reads returns \<open>error + 'a\<close> (\<open>Inl\<close> the exception); a method that mutates its
  object returns the pair of that result and the state the object is left in, so that
  what an exception leaves behind can be stated.
\<close>

datatype error =
    TypeError | ValueError | ZeroDivisionError | NameError | KeyError
  | AttributeError | IndexError | OverflowError

section \<open>Points and poses\<close>

text \<open>
  Coordinates, angles and membership degrees are Python floats in the program; they are
  modelled as real numbers, so rounding, overflow and NaN are outside this development.
  A division whose divisor is zero raises \<open>ZeroDivisionError\<close> in Python and is written
  out as such wherever the source divides.
\<close>

type_synonym vec = "real \<times> real \<times> real"

datatype point =
    Point real real real
  | DirectionalPoint real real real real real

fun px :: "point \<Rightarrow> real" where
  "px (Point x y z) = x"
| "px (DirectionalPoint x y z rho eta) = x"

fun py :: "point \<Rightarrow> real" where
  "py (Point x y z) = y"
| "py (DirectionalPoint x y z rho eta) = y"

fun pz :: "point \<Rightarrow> real" where
  "pz (Point x y z) = z"
| "pz (DirectionalPoint x y z rho eta) = z"

fun is_directional :: "point \<Rightarrow> bool" where
  "is_directional (Point x y z) = False"
| "is_directional (DirectionalPoint x y z rho eta) = True"

text \<open>
  Modelled from the spec: the module \<open>geometry\<close> (classes \<open>Pose\<close>, \<open>Point\<close>,
  \<open>DirectionalPoint\<close>) is not among the sources. The spec gives a pose as a rigid
  transform that has an inverse, composes, and maps points and directional points
  between frames. The operations are taken as parameters: \<open>pose_neg\<close> is \<open>-pose\<close>,
  \<open>pose_add\<close> is \<open>pose + pose\<close>, \<open>pose_of_T\<close> is \<open>Pose(T=...)\<close>, \<open>pose_T\<close> is
  \<open>pose.T\<close>, and \<open>pose.map\<close> acts on the coordinates by \<open>map_xyz\<close> and on the two
  direction angles by \<open>map_dir\<close>, a plain point staying plain.
\<close>

record 'pose geometry =
  pose_neg :: "'pose \<Rightarrow> 'pose"
  pose_add :: "'pose \<Rightarrow> 'pose \<Rightarrow> 'pose"
  pose_of_T :: "vec \<Rightarrow> 'pose"
  pose_T :: "'pose \<Rightarrow> vec"
  map_xyz :: "'pose \<Rightarrow> vec \<Rightarrow> vec"
  map_dir :: "'pose \<Rightarrow> real \<times> real \<Rightarrow> real \<times> real"

fun pose_map :: "'pose geometry \<Rightarrow> 'pose \<Rightarrow> point \<Rightarrow> point" where
  "pose_map G P (Point x y z) =
     (case map_xyz G P (x, y, z) of (x', y', z') \<Rightarrow> Point x' y' z')"
| "pose_map G P (DirectionalPoint x y z rho eta) =
     (case map_xyz G P (x, y, z) of (x', y', z') \<Rightarrow>
        (case map_dir G P (rho, eta) of (rho', eta') \<Rightarrow>
           DirectionalPoint x' y' z' rho' eta'))"

section \<open>Fuzzy numbers and fuzzy sets\<close>

text \<open>
  Modelled from the spec: \<open>TrapezoidalFuzzyNumber\<close> comes from the external library
  \<open>fuzz\<close>. The spec gives it as a piecewise-linear membership function with a core
  (kernel) interval and a support interval: 1 inside the core, 0 outside the support,
  a linear ramp between. The source builds it as
  \<open>TrapezoidalFuzzyNumber(kernel, support)\<close>.
\<close>

record TrapezoidalFuzzyNumber =
  kernel :: "real \<times> real"
  support :: "real \<times> real"

definition tfn_mu :: "TrapezoidalFuzzyNumber \<Rightarrow> real \<Rightarrow> real" where
  "tfn_mu t v =
     (if fst (kernel t) \<le> v \<and> v \<le> snd (kernel t) then 1
      else if fst (support t) < v \<and> v < fst (kernel t)
        then (v - fst (support t)) / (fst (kernel t) - fst (support t))
      else if v < snd (support t) \<and> snd (kernel t) < v
        then (snd (support t) - v) / (snd (support t) - snd (kernel t))
      else 0)"

text \<open>
  Modelled from the spec: \<open>FuzzySet\<close> and \<open>FuzzyElement\<close> come from \<open>fuzz\<close> too. A fuzzy
  set maps point keys to degrees; \<open>mu\<close> of a key that is absent is 0, the union
  (\<open>|\<close>) is the pointwise maximum over the keys of either set, the intersection
  (\<open>&\<close>) the pointwise minimum over the keys of both. \<open>FuzzySet(elements)\<close> is built
  from a list of (key, degree) elements.
\<close>

type_synonym FuzzySet = "point \<rightharpoonup> real"

definition FuzzySet_mu :: "FuzzySet \<Rightarrow> point \<Rightarrow> real" where
  "FuzzySet_mu f p = (case f p of None \<Rightarrow> 0 | Some m \<Rightarrow> m)"

definition FuzzySet_union :: "FuzzySet \<Rightarrow> FuzzySet \<Rightarrow> FuzzySet" where
  "FuzzySet_union a b =
     (\<lambda>p. if a p = None \<and> b p = None then None
          else Some (max (FuzzySet_mu a p) (FuzzySet_mu b p)))"

definition FuzzySet_intersection :: "FuzzySet \<Rightarrow> FuzzySet \<Rightarrow> FuzzySet" where
  "FuzzySet_intersection a b =
     (\<lambda>p. case a p of
            None \<Rightarrow> None
          | Some x \<Rightarrow> (case b p of None \<Rightarrow> None | Some y \<Rightarrow> Some (min x y)))"

definition FuzzySet_of :: "(point \<times> real) list \<Rightarrow> FuzzySet" where
  "FuzzySet_of elements = map_of elements"

section \<open>The single-camera model (coverage.py, class Camera)\<close>

text \<open>
  The fields \<open>Camera.__init__\<close> sets: the per-axis visibility numbers \<open>Cv\<close> (the
  constructor appends exactly two, index 0 from the horizontal sensor parameters and
  index 1 from the vertical ones), the resolution and focus numbers \<open>Cr\<close> and \<open>Cf\<close>,
  the direction fuzzifier \<open>zeta\<close> and the pose. \<open>inscene\<close> is the attribute that
  \<open>MultiCamera\<close> attaches to a camera; \<open>None\<close> stands for a camera that does not have
  the attribute yet.
\<close>

record 'pose Camera =
  Cv :: "TrapezoidalFuzzyNumber list"
  Cr :: TrapezoidalFuzzyNumber
  Cf :: TrapezoidalFuzzyNumber
  zeta :: real
  pose :: 'pose
  inscene :: "FuzzySet option"

text \<open>Python's \<open>min\<close> of a list: \<open>ValueError\<close> on the empty list.\<close>

fun py_min :: "real list \<Rightarrow> error + real" where
  "py_min [] = Inl ValueError"
| "py_min (x # xs) = Inr (fold min xs x)"

text \<open>
  The visibility term, lines 105-109: the list comprehension evaluates every number of
  \<open>Cv\<close> at \<open>campoint.x / campoint.z\<close>; the first division raises when \<open>z\<close> is zero and
  the handler gives 0.0. With an empty \<open>Cv\<close> nothing is divided and \<open>min\<close> raises.
\<close>

definition mu_v :: "'pose Camera \<Rightarrow> point \<Rightarrow> error + real" where
  "mu_v c campoint =
     (if Cv c \<noteq> [] \<and> pz campoint = 0 then Inr 0
      else py_min (map (\<lambda>t. tfn_mu t (px campoint / pz campoint)) (Cv c)))"

definition mu_r :: "'pose Camera \<Rightarrow> point \<Rightarrow> real" where
  "mu_r c campoint = tfn_mu (Cr c) (pz campoint)"

definition mu_f :: "'pose Camera \<Rightarrow> point \<Rightarrow> real" where
  "mu_f c campoint = tfn_mu (Cf c) (pz campoint)"

text \<open>
  The direction term, lines 117-132. The two guarded divisions fall back to 1.0 and
  \<open>pi / 2\<close>; the division by \<open>self.zeta\<close> stands outside any handler.
\<close>

definition terma :: "real \<Rightarrow> real \<Rightarrow> real \<Rightarrow> real" where
  "terma x y eta =
     (let r = sqrt (x ^ 2 + y ^ 2)
      in if r = 0 then 1 else (y / r) * sin eta + (x / r) * cos eta)"

definition termb :: "real \<Rightarrow> real \<Rightarrow> real \<Rightarrow> real" where
  "termb x y z =
     (let r = sqrt (x ^ 2 + y ^ 2)
      in if z = 0 then pi / 2 else arctan (r / z))"

fun mu_d :: "'pose Camera \<Rightarrow> point \<Rightarrow> error + real" where
  "mu_d c (Point x y z) = Inr 1"
| "mu_d c (DirectionalPoint x y z rho eta) =
     (if zeta c = 0 then Inl ZeroDivisionError
      else Inr (min (max ((rho - (pi / 2 + terma x y eta * termb x y z)) / zeta c) 0) 1))"

text \<open>
  \<open>Camera.mu\<close>, lines 91-135. The argument is a point by its type, so the \<open>TypeError\<close> of
  lines 100-101 has no counterpart; \<open>campoint\<close> is the point mapped by the inverse of the
  camera's pose, and the result is the product of the four terms.
\<close>

definition Camera_mu :: "'pose geometry \<Rightarrow> 'pose Camera \<Rightarrow> point \<Rightarrow> error + real" where
  "Camera_mu G c point =
     (let campoint = pose_map G (pose_neg G (pose c)) point
      in case mu_v c campoint of
           Inl e \<Rightarrow> Inl e
         | Inr v \<Rightarrow>
             (case mu_d c campoint of
                Inl e \<Rightarrow> Inl e
              | Inr d \<Rightarrow> Inr (v * mu_r c campoint * mu_f c campoint * d)))"

section \<open>The multi-camera network (coverage.py, class MultiCamera)\<close>

text \<open>
  \<open>MultiCamera\<close> is a \<open>dict\<close> from keys to cameras with the attributes \<open>ocular\<close>,
  \<open>scene\<close>, \<open>points\<close>, \<open>model\<close> and \<open>model_updated\<close>. The dict is an association
  list with one entry per key. Of the module \<open>scene\<close>, which is not among the sources,
  only the predicate \<open>scene.occluded(point, reference)\<close> is used; the scene is that
  predicate. Each camera is stored by value under its key: a camera object is taken to
  be assigned under one key of one network.

  The constructor keeps the set of points it is handed (\<open>self.points = points\<close>), not a
  copy, and its default \<open>points = set()\<close> is one set, made when the method is defined
  and shared by every network built without the argument. The sets therefore live in a
  store, a network holds the reference of its set, and \<open>add_point\<close> changes the store:
  every network that holds the same reference sees the added point. A set is a list
  without regard to order; \<open>default_points\<close> is the reference of the default set.
\<close>

type_synonym Scene = "point \<Rightarrow> vec \<Rightarrow> bool"

type_synonym ref = nat

type_synonym store = "ref \<Rightarrow> point list"

definition default_points :: ref where
  "default_points = 0"

record ('k, 'pose) MultiCamera =
  cameras :: "('k \<times> 'pose Camera) list"
  ocular :: int
  scene :: Scene
  points :: ref
  model :: FuzzySet
  model_updated :: bool

text \<open>What may stand on the right of \<open>network[key] = value\<close>: a camera or anything else.\<close>

datatype ('pose, 'a) pyobject = CameraObject "'pose Camera" | OtherObject 'a

fun isinstance_Camera :: "('pose, 'a) pyobject \<Rightarrow> bool" where
  "isinstance_Camera (CameraObject c) = True"
| "isinstance_Camera (OtherObject v) = False"

fun dict_get :: "('k \<times> 'v) list \<Rightarrow> 'k \<Rightarrow> 'v option" where
  "dict_get [] k = None"
| "dict_get ((k', v) # rest) k = (if k' = k then Some v else dict_get rest k)"

fun dict_setitem :: "'k \<Rightarrow> 'v \<Rightarrow> ('k \<times> 'v) list \<Rightarrow> ('k \<times> 'v) list" where
  "dict_setitem k v [] = [(k, v)]"
| "dict_setitem k v ((k', v') # rest) =
     (if k' = k then (k, v) # rest else (k', v') # dict_setitem k v rest)"

definition keys :: "('k \<times> 'v) list \<Rightarrow> 'k list" where
  "keys d = map fst d"

text \<open>\<open>set.add\<close> on the tracked points.\<close>

definition set_add :: "point \<Rightarrow> point list \<Rightarrow> point list" where
  "set_add p ps = (if p \<in> set ps then ps else ps @ [p])"

text \<open>\<open>itertools.combinations(iterable, r)\<close> for \<open>r \<ge> 0\<close>, in its order.\<close>

fun combinations :: "'a list \<Rightarrow> nat \<Rightarrow> 'a list list" where
  "combinations xs 0 = [[]]"
| "combinations [] (Suc n) = []"
| "combinations (x # xs) (Suc n) =
     map (\<lambda>c. x # c) (combinations xs n) @ combinations xs (Suc n)"

text \<open>
  \<open>__init__\<close>, lines 157-174. The argument \<open>points\<close> is the reference of the caller's
  set, or \<open>None\<close> when the argument is left out and the default set is taken.
\<close>

definition MultiCamera_init ::
  "int \<Rightarrow> Scene \<Rightarrow> ref option \<Rightarrow> error + ('k, 'pose) MultiCamera" where
  "MultiCamera_init n sc ps =
     (if n < 1 then Inl ValueError
      else Inr \<lparr>cameras = [], ocular = n, scene = sc,
                points = (case ps of None \<Rightarrow> default_points | Some r \<Rightarrow> r),
                model = Map.empty, model_updated = False\<rparr>)"

text \<open>
  The test both \<open>add_point\<close> and \<open>update_inscene\<close> apply to a membership degree:
  \<open>mu > 0 and not self.scene.occluded(point, self[key].pose.T)\<close>.
\<close>

definition covers ::
  "'pose geometry \<Rightarrow> Scene \<Rightarrow> 'pose Camera \<Rightarrow> point \<Rightarrow> real \<Rightarrow> bool" where
  "covers G sc cam p m = (0 < m \<and> \<not> sc p (pose_T G (pose cam)))"

text \<open>The loop of \<open>update_inscene\<close>, lines 211-215: it stops at the first exception.\<close>

fun mpoints ::
  "'pose geometry \<Rightarrow> Scene \<Rightarrow> 'pose Camera \<Rightarrow> point list \<Rightarrow> error + (point \<times> real) list"
where
  "mpoints G sc cam [] = Inr []"
| "mpoints G sc cam (p # ps) =
     (case Camera_mu G cam p of
        Inl e \<Rightarrow> Inl e
      | Inr m \<Rightarrow>
          (case mpoints G sc cam ps of
             Inl e \<Rightarrow> Inl e
           | Inr ms \<Rightarrow> Inr (if covers G sc cam p m then (p, m) # ms else ms)))"

text \<open>
  \<open>update_inscene\<close>, lines 204-217, reads the tracked points in the store \<open>h\<close> and
  leaves the store as it is.
\<close>

definition update_inscene ::
  "'pose geometry \<Rightarrow> store \<Rightarrow> ('k, 'pose) MultiCamera \<Rightarrow> 'k \<Rightarrow>
     (error + unit) \<times> ('k, 'pose) MultiCamera"
where
  "update_inscene G h s key =
     (case dict_get (cameras s) key of
        None \<Rightarrow> (Inl KeyError, s)
      | Some cam \<Rightarrow>
          (case mpoints G (scene s) cam (h (points s)) of
             Inl e \<Rightarrow> (Inl e, s)
           | Inr ms \<Rightarrow>
               (Inr (),
                s\<lparr>cameras := dict_setitem key (cam\<lparr>inscene := Some (FuzzySet_of ms)\<rparr>) (cameras s),
                  model_updated := False\<rparr>)))"

definition setitem ::
  "'pose geometry \<Rightarrow> store \<Rightarrow> ('k, 'pose) MultiCamera \<Rightarrow> 'k \<Rightarrow> ('pose, 'a) pyobject \<Rightarrow>
     (error + unit) \<times> ('k, 'pose) MultiCamera"
where
  "setitem G h s key val =
     (case val of
        OtherObject v \<Rightarrow> (Inl ValueError, s)
      | CameraObject c \<Rightarrow>
          update_inscene G h (s\<lparr>cameras := dict_setitem key c (cameras s)\<rparr>) key)"

text \<open>
  The loop of \<open>add_point\<close>, lines 199-202, over the dict's entries: the cameras visited
  before an exception keep their update.
\<close>

fun add_point_loop ::
  "'pose geometry \<Rightarrow> Scene \<Rightarrow> point \<Rightarrow> ('k \<times> 'pose Camera) list \<Rightarrow>
     (error + unit) \<times> ('k \<times> 'pose Camera) list"
where
  "add_point_loop G sc p [] = (Inr (), [])"
| "add_point_loop G sc p ((k, cam) # rest) =
     (case Camera_mu G cam p of
        Inl e \<Rightarrow> (Inl e, (k, cam) # rest)
      | Inr m \<Rightarrow>
          (if covers G sc cam p m then
             (case inscene cam of
                None \<Rightarrow> (Inl AttributeError, (k, cam) # rest)
              | Some f \<Rightarrow>
                  (case add_point_loop G sc p rest of
                     (r, rest') \<Rightarrow>
                       (r, (k, cam\<lparr>inscene := Some (FuzzySet_union f (FuzzySet_of [(p, m)]))\<rparr>)
                             # rest')))
           else
             (case add_point_loop G sc p rest of (r, rest') \<Rightarrow> (r, (k, cam) # rest'))))"

text \<open>
  \<open>add_point\<close>, lines 190-202: the point is added to the set the network refers to,
  in the store, before the loop; the result is the store and the network the call
  leaves.
\<close>

definition add_point ::
  "'pose geometry \<Rightarrow> store \<Rightarrow> ('k, 'pose) MultiCamera \<Rightarrow> point \<Rightarrow>
     (error + unit) \<times> store \<times> ('k, 'pose) MultiCamera"
where
  "add_point G h s p =
     (case add_point_loop G (scene s) p (cameras s) of
        (r, cams) \<Rightarrow> (r, h(points s := set_add p (h (points s))), s\<lparr>cameras := cams\<rparr>))"

text \<open>
  \<open>update_model\<close>, lines 219-233. \<open>self[key].inscene\<close> raises \<open>AttributeError\<close> for a
  camera without the attribute; \<open>combination[0]\<close> raises \<open>IndexError\<close> on the empty
  combination, which is the one combination of size 0; \<open>combinations\<close> raises
  \<open>ValueError\<close> for a negative size. By then \<open>self.model\<close> has been emptied.
\<close>

definition inscene_of :: "('k \<times> 'pose Camera) list \<Rightarrow> 'k \<Rightarrow> error + FuzzySet" where
  "inscene_of d k =
     (case dict_get d k of
        None \<Rightarrow> Inl KeyError
      | Some cam \<Rightarrow> (case inscene cam of None \<Rightarrow> Inl AttributeError | Some f \<Rightarrow> Inr f))"

fun intersect_rest ::
  "('k \<times> 'pose Camera) list \<Rightarrow> FuzzySet \<Rightarrow> 'k list \<Rightarrow> error + FuzzySet" where
  "intersect_rest d acc [] = Inr acc"
| "intersect_rest d acc (k # ks) =
     (case inscene_of d k of
        Inl e \<Rightarrow> Inl e
      | Inr f \<Rightarrow> intersect_rest d (FuzzySet_intersection acc f) ks)"

fun submodel :: "('k \<times> 'pose Camera) list \<Rightarrow> 'k list \<Rightarrow> error + FuzzySet" where
  "submodel d [] = Inl IndexError"
| "submodel d (k # ks) =
     (case inscene_of d k of
        Inl e \<Rightarrow> Inl e
      | Inr f \<Rightarrow> intersect_rest d f ks)"

fun submodels :: "('k \<times> 'pose Camera) list \<Rightarrow> 'k list list \<Rightarrow> error + FuzzySet list" where
  "submodels d [] = Inr []"
| "submodels d (c # cs) =
     (case submodel d c of
        Inl e \<Rightarrow> Inl e
      | Inr f \<Rightarrow> (case submodels d cs of Inl e \<Rightarrow> Inl e | Inr fs \<Rightarrow> Inr (f # fs)))"

definition update_model ::
  "('k, 'pose) MultiCamera \<Rightarrow> (error + unit) \<times> ('k, 'pose) MultiCamera" where
  "update_model s =
     (if int (length (cameras s)) < ocular s then (Inl ValueError, s)
      else if ocular s < 0 then (Inl ValueError, s\<lparr>model := Map.empty\<rparr>)
      else
        (case submodels (cameras s) (combinations (keys (cameras s)) (nat (ocular s))) of
           Inl e \<Rightarrow> (Inl e, s\<lparr>model := Map.empty\<rparr>)
         | Inr subs \<Rightarrow>
             (Inr (),
              s\<lparr>model := fold (\<lambda>sub m. FuzzySet_union m sub) subs Map.empty,
                model_updated := True\<rparr>)))"

text \<open>
  \<open>MultiCamera.mu\<close>, lines 235-251. In the last branch the size handed to
  \<open>combinations\<close> is the name \<open>n\<close>, which is bound neither in the method nor in the
  module: evaluating it raises \<open>NameError\<close> before any camera is consulted.
\<close>

definition MultiCamera_mu :: "('k, 'pose) MultiCamera \<Rightarrow> point \<Rightarrow> error + real" where
  "MultiCamera_mu s p =
     (if int (length (cameras s)) < ocular s then Inl ValueError
      else if p \<in> dom (model s) then Inr (FuzzySet_mu (model s) p)
      else Inl NameError)"

section \<open>The range imaging model (laser.py, class RangeModel)\<close>

text \<open>
  \<open>RangeModel\<close> is a dict from identifiers to scene objects together with the set
  \<open>lasers\<close> of the identifiers that were assigned a \<open>LineLaser\<close>. A scene object has a
  pose and triangles; a line laser has a fan angle and a projection depth besides
  (\<open>line_laser\<close> is \<open>None\<close> for an object that is not a \<open>LineLaser\<close>). A \<open>PointCache\<close>
  is a dict from points to degrees, in the order its keys were first stored; the points
  that \<open>project\<close> handles before it emits a directional point are coordinate triples.
\<close>

type_synonym Triangle = "vec \<times> vec \<times> vec"

type_synonym PointCache = "(point \<times> real) list"

record 'pose SceneObject =
  obj_pose :: 'pose
  triangles :: "Triangle list"
  line_laser :: "(real \<times> real) option"

record ('id, 'pose) RangeModel =
  objects :: "('id \<times> 'pose SceneObject) list"
  lasers :: "'id set"

record ('tp, 'pose) Task =
  params :: 'tp
  task_points :: PointCache
  mount :: "'pose SceneObject option"

text \<open>
  Modelled from the spec: the base class \<open>Model\<close> and the modules \<open>geometry\<close> and
  \<open>posable\<close> are not among the sources. What \<open>laser.py\<close> calls of them is taken as
  parameters: the pose operations \<open>geom\<close>; \<open>normal\<close>, the normalised transport axis
  (\<open>taxis.normal\<close>, which may fail); \<open>intersection\<close>, the point where the segment
  between two points meets a triangle of an object at a given pose, if any
  (\<open>triangle.intersection\<close>); \<open>laser_occluded\<close>, the model's
  \<open>occluded(point, laser)\<close>; and \<open>model_coverage\<close>, the model's
  \<open>coverage(task, subset)\<close>. The last two read the model and do not change it.
  \<open>set_absolute_pose\<close> makes the given pose the object's pose, and the vertices of
  \<open>triangle.mapped_triangle\<close> are the triangle's vertices mapped by the object's pose.
\<close>

record ('id, 'tp, 'pose) collaborators =
  geom :: "'pose geometry"
  normal :: "vec \<Rightarrow> error + vec"
  intersection :: "'pose \<Rightarrow> Triangle \<Rightarrow> vec \<Rightarrow> vec \<Rightarrow> vec option"
  laser_occluded :: "('id, 'pose) RangeModel \<Rightarrow> vec \<Rightarrow> 'id \<Rightarrow> bool"
  model_coverage ::
    "('id, 'pose) RangeModel \<Rightarrow> ('tp, 'pose) Task \<Rightarrow> 'id set option \<Rightarrow> error + PointCache"

definition set_absolute_pose :: "'pose SceneObject \<Rightarrow> 'pose \<Rightarrow> 'pose SceneObject" where
  "set_absolute_pose obj P = obj\<lparr>obj_pose := P\<rparr>"

definition mapped_vertices :: "'pose geometry \<Rightarrow> 'pose \<Rightarrow> Triangle \<Rightarrow> vec list" where
  "mapped_vertices G P t =
     (case t of (a, b, c) \<Rightarrow> [map_xyz G P a, map_xyz G P b, map_xyz G P c])"

text \<open>\<open>point * point\<close> is the dot product and \<open>float * point\<close> scales the point.\<close>

fun dot :: "vec \<Rightarrow> vec \<Rightarrow> real" where
  "dot (a, b, c) (x, y, z) = a * x + b * y + c * z"

fun scale :: "real \<Rightarrow> vec \<Rightarrow> vec" where
  "scale k (x, y, z) = (k * x, k * y, k * z)"

text \<open>Python's \<open>int\<close> of a float truncates towards zero.\<close>

definition py_int :: "real \<Rightarrow> int" where
  "py_int x = (if 0 \<le> x then \<lfloor>x\<rfloor> else \<lceil>x\<rceil>)"

text \<open>
  The loop over the target's triangles in \<open>project\<close>, lines 218-227: \<open>cp\<close> is the
  nearest intersection, in the laser's frame, that lies within the fan.
\<close>

fun nearest ::
  "('id, 'tp, 'pose) collaborators \<Rightarrow> 'pose \<Rightarrow> real \<Rightarrow> 'pose \<Rightarrow> vec \<Rightarrow> vec \<Rightarrow>
     Triangle list \<Rightarrow> vec option \<Rightarrow> vec option"
where
  "nearest E lp fan tp origin endp [] cp = cp"
| "nearest E lp fan tp origin endp (t # ts) cp =
     (case intersection E tp t origin endp of
        None \<Rightarrow> nearest E lp fan tp origin endp ts cp
      | Some ip0 \<Rightarrow>
          (case map_xyz (geom E) (pose_neg (geom E) lp) ip0 of
             (ix, iy, iz) \<Rightarrow>
               if \<bar>ix\<bar> > iz * tan (fan / 2) then nearest E lp fan tp origin endp ts cp
               else
                 (case cp of
                    None \<Rightarrow> nearest E lp fan tp origin endp ts (Some (ix, iy, iz))
                  | Some (cx, cy, cz) \<Rightarrow>
                      if iz < cz then nearest E lp fan tp origin endp ts (Some (ix, iy, iz))
                      else nearest E lp fan tp origin endp ts cp)))"

text \<open>
  The \<open>while x < width\<close> loop of \<open>project\<close>, lines 214-230. It does not end when
  \<open>lpitch\<close> is negative and \<open>x\<close> starts below \<open>width\<close>: not returning is \<open>None\<close>.
\<close>

partial_function (option) project_loop ::
  "('id, 'tp, 'pose) collaborators \<Rightarrow> ('id, 'pose) RangeModel \<Rightarrow> 'pose SceneObject \<Rightarrow>
     real \<Rightarrow> real \<Rightarrow> 'id \<Rightarrow> 'id \<Rightarrow> real \<Rightarrow> real \<Rightarrow> real \<Rightarrow> PointCache \<Rightarrow>
     (error + PointCache) option"
where
  "project_loop E s lobj fan depth laser target width lpitch x pts =
     (if x < width then
        (case dict_get (objects s) target of
           None \<Rightarrow> Some (Inl KeyError)
         | Some tobj \<Rightarrow>
             project_loop E s lobj fan depth laser target width lpitch (x + lpitch)
               (case nearest E (obj_pose lobj) fan (obj_pose tobj)
                       (map_xyz (geom E) (obj_pose lobj) (x, 0, 0))
                       (map_xyz (geom E) (obj_pose lobj) (x, 0, depth))
                       (triangles tobj) None of
                  None \<Rightarrow> pts
                | Some cp \<Rightarrow>
                    if laser_occluded E s (map_xyz (geom E) (obj_pose lobj) cp) laser then pts
                    else (case cp of (cx, cy, cz) \<Rightarrow>
                            dict_setitem (DirectionalPoint cx cy cz pi 0) 1 pts)))
      else Some (Inr pts))"

definition project ::
  "('id, 'tp, 'pose) collaborators \<Rightarrow> ('id, 'pose) RangeModel \<Rightarrow> 'tp \<Rightarrow> 'id \<Rightarrow> 'id \<Rightarrow> real \<Rightarrow>
     (error + ('tp, 'pose) Task) option"
where
  "project E s task_params laser target lpitch =
     (if laser \<notin> lasers s then Some (Inl KeyError)
      else
        (case dict_get (objects s) laser of
           None \<Rightarrow> Some (Inl KeyError)
         | Some lobj \<Rightarrow>
             (case line_laser lobj of
                None \<Rightarrow> Some (Inl AttributeError)
              | Some (fan, depth) \<Rightarrow>
                  if lpitch = 0 then Some (Inl ZeroDivisionError)
                  else
                    (case project_loop E s lobj fan depth laser target
                            (depth * tan (fan / 2)) lpitch
                            (real_of_int (py_int (- (depth * tan (fan / 2)) / lpitch)) * lpitch)
                            [] of
                       None \<Rightarrow> None
                     | Some (Inl e) \<Rightarrow> Some (Inl e)
                     | Some (Inr pts) \<Rightarrow>
                         Some (Inr \<lparr>params = task_params, task_points = pts,
                                    mount = Some lobj\<rparr>)))))"

text \<open>
  \<open>range_coverage\<close>, lines 260-292. \<open>extent\<close> is the pair \<open>(lv, gv)\<close> after the loop over
  the vertices, \<open>None\<close> while both still hold their infinite initial values; \<open>int\<close> of
  an infinite quotient raises \<open>OverflowError\<close>.
\<close>

fun extent :: "real list \<Rightarrow> (real \<times> real) option" where
  "extent [] = None"
| "extent (pv # pvs) = Some (fold min pvs pv, fold max pvs pv)"

text \<open>The loop over the profile's coverage, lines 279-283.\<close>

fun accumulate ::
  "'pose geometry \<Rightarrow> 'pose \<Rightarrow> PointCache \<Rightarrow> PointCache \<times> PointCache \<Rightarrow> PointCache \<times> PointCache"
where
  "accumulate G back [] (cov, orig) = (cov, orig)"
| "accumulate G back ((point, v) # rest) (cov, orig) =
     accumulate G back rest
       (dict_setitem (pose_map G back point) v cov, dict_setitem (pose_map G back point) 1 orig)"

text \<open>
  The loop over the steps, lines 272-283, threading the model: the state returned with
  an exception is the one the exception leaves, the target at the pose of that step.
\<close>

fun sweep ::
  "('id, 'tp, 'pose) collaborators \<Rightarrow> ('id, 'pose) RangeModel \<Rightarrow> 'tp \<Rightarrow> 'id \<Rightarrow> 'id \<Rightarrow> real \<Rightarrow>
     real \<Rightarrow> vec \<Rightarrow> real \<Rightarrow> 'pose \<Rightarrow> 'id set option \<Rightarrow> nat list \<Rightarrow> PointCache \<times> PointCache \<Rightarrow>
     ((error + PointCache \<times> PointCache) \<times> ('id, 'pose) RangeModel) option"
where
  "sweep E s task_params laser target lpitch tpitch taxis gv original_pose cam_subset [] acc =
     Some (Inr acc, s)"
| "sweep E s task_params laser target lpitch tpitch taxis gv original_pose cam_subset (i # steps) acc =
     (case dict_get (objects s) target of
        None \<Rightarrow> Some (Inl KeyError, s)
      | Some tobj \<Rightarrow>
          (let s1 = s\<lparr>objects := dict_setitem target
                      (set_absolute_pose tobj
                         (pose_add (geom E) original_pose
                            (pose_of_T (geom E) (scale (tpitch * real i - gv) taxis))))
                      (objects s)\<rparr>
           in case project E s1 task_params laser target lpitch of
                None \<Rightarrow> None
              | Some (Inl e) \<Rightarrow> Some (Inl e, s1)
              | Some (Inr prof_task) \<Rightarrow>
                  (case model_coverage E s1 prof_task cam_subset of
                     Inl e \<Rightarrow> Some (Inl e, s1)
                   | Inr prof_coverage \<Rightarrow>
                       sweep E s1 task_params laser target lpitch tpitch taxis gv original_pose
                         cam_subset steps
                         (accumulate (geom E)
                            (pose_add (geom E)
                               (pose_neg (geom E)
                                  (pose_add (geom E) original_pose
                                     (pose_of_T (geom E) (scale (tpitch * real i - gv) taxis))))
                               original_pose)
                            prof_coverage acc))))"

definition range_coverage ::
  "('id, 'tp, 'pose) collaborators \<Rightarrow> ('id, 'pose) RangeModel \<Rightarrow> ('tp, 'pose) Task \<Rightarrow> 'id \<Rightarrow> 'id \<Rightarrow>
     real \<Rightarrow> real \<Rightarrow> vec \<Rightarrow> string \<Rightarrow> 'id set option \<Rightarrow>
     ((error + PointCache \<times> ('tp, 'pose) Task) \<times> ('id, 'pose) RangeModel) option"
where
  "range_coverage E s task laser target lpitch tpitch taxis tstyle cam_subset =
     (case dict_get (objects s) target of
        None \<Rightarrow> Some (Inl KeyError, s)
      | Some tobj \<Rightarrow>
          if tstyle = ''linear'' then
            (case normal E taxis of
               Inl e \<Rightarrow> Some (Inl e, s)
             | Inr axis \<Rightarrow>
                 if tpitch = 0 then Some (Inl ZeroDivisionError, s)
                 else
                   (case extent (map (dot axis)
                           (concat (map (mapped_vertices (geom E) (obj_pose tobj))
                                      (triangles tobj)))) of
                      None \<Rightarrow> Some (Inl OverflowError, s)
                    | Some (lv, gv) \<Rightarrow>
                        (case sweep E s (params task) laser target lpitch tpitch axis gv
                                (obj_pose tobj) cam_subset
                                [0 ..< nat (py_int ((gv - lv) / tpitch))] ([], []) of
                           None \<Rightarrow> None
                         | Some (Inl e, s1) \<Rightarrow> Some (Inl e, s1)
                         | Some (Inr (coverage, task_original), s1) \<Rightarrow>
                             (case dict_get (objects s1) target of
                                None \<Rightarrow> Some (Inl KeyError, s1)
                              | Some tobj1 \<Rightarrow>
                                  Some (Inr (coverage,
                                             \<lparr>params = params task,
                                              task_points = task_original,
                                              mount = None\<rparr>),
                                        s1\<lparr>objects := dict_setitem target
                                             (set_absolute_pose tobj1 (obj_pose tobj))
                                             (objects s1)\<rparr>)))))
          else Some (Inl ValueError, s))"

section \<open>What the claims say of the in-scene sets\<close>

text \<open>
  These definitions follow the wording of the specification, to be compared with what
  the methods above compute; none of them is written with a function of the methods
  other than \<open>Camera.mu\<close>, which the specification names. \<open>inscene_spec\<close> is the in-scene
  set the specification gives a camera: a tracked point is a key, with weight
  \<open>Camera.mu(point)\<close>, exactly when that weight is greater than 0 and the scene does not
  report the point occluded from the camera's reference location \<open>pose.T\<close>; every other
  point is absent. \<open>inscene_inv\<close> says that every camera of the network carries that set
  for the points the network tracks in the store. \<open>added_at\<close> is what the specification
  lets \<open>add_point\<close> do to one in-scene set \<open>f\<close> for the new point \<open>p\<close> of degree \<open>m\<close>: the
  point enters, with the larger of its old degree and \<open>m\<close>, and the other keys stay
  (the union of the library reads an absent key as 0, so a degree below 0 would be
  raised to 0). \<open>add_point_rule\<close> relates a camera before and after \<open>add_point\<close>: a
  point of positive degree that is not occluded is added to the set, and otherwise the
  camera is left as it was. \<open>inscene_at\<close> reads the in-scene set of the camera under a
  key.
\<close>

definition inscene_spec ::
  "'pose geometry \<Rightarrow> Scene \<Rightarrow> point list \<Rightarrow> 'pose Camera \<Rightarrow> FuzzySet" where
  "inscene_spec G sc ps cam =
     (\<lambda>p. if p \<in> set ps then
            (case Camera_mu G cam p of
               Inl e \<Rightarrow> None
             | Inr m \<Rightarrow> if 0 < m \<and> \<not> sc p (pose_T G (pose cam)) then Some m else None)
          else None)"




definition inscene_at :: "('k \<times> 'pose Camera) list \<Rightarrow> 'k \<Rightarrow> FuzzySet" where
  "inscene_at d k = (case inscene_of d k of Inl e \<Rightarrow> Map.empty | Inr f \<Rightarrow> f)"

section \<open>A concrete geometry, camera and network\<close>

text \<open>
  Poses that are translations, a camera at the origin, a scene in which nothing occludes,
  a store in which every set is empty and a one-camera network on the default set: the
  inputs at which the theorems below are evaluated.
\<close>

definition shift_geometry :: "vec geometry" where
  "shift_geometry =
     \<lparr>pose_neg = (\<lambda>(a, b, c). (- a, - b, - c)),
      pose_add = (\<lambda>(a, b, c) (x, y, z). (a + x, b + y, c + z)),
      pose_of_T = (\<lambda>v. v),
      pose_T = (\<lambda>P. P),
      map_xyz = (\<lambda>(a, b, c) (x, y, z). (x + a, y + b, z + c)),
      map_dir = (\<lambda>P d. d)\<rparr>"

definition camera0 :: "vec Camera" where
  "camera0 =
     \<lparr>Cv = [\<lparr>kernel = (- 1 / 2, 1 / 2), support = (- 1, 1)\<rparr>,
            \<lparr>kernel = (- 1 / 2, 1 / 2), support = (- 1, 1)\<rparr>],
      Cr = \<lparr>kernel = (0, 10), support = (0, 20)\<rparr>,
      Cf = \<lparr>kernel = (1, 5), support = (0, 8)\<rparr>,
      zeta = 1,
      pose = (0, 0, 0),
      inscene = None\<rparr>"

definition scene0 :: Scene where
  "scene0 = (\<lambda>p r. False)"

definition store0 :: store where
  "store0 = (\<lambda>r. [])"

definition network0 :: "(string, vec) MultiCamera" where
  "network0 =
     \<lparr>cameras = [(''A'', camera0\<lparr>inscene := Some Map.empty\<rparr>)],
      ocular = 1, scene = scene0, points = default_points,
      model = Map.empty, model_updated = False\<rparr>"






definition network2 :: "(string, vec) MultiCamera" where
  "network2 =
     \<lparr>cameras =
        [(''A'', camera0\<lparr>inscene := Some [Point 0 0 2 \<mapsto> 4 / 5]\<rparr>),
         (''B'', camera0\<lparr>pose := (1, 0, 0),
                         inscene := Some [Point 0 0 2 \<mapsto> 3 / 5, Point 0 0 3 \<mapsto> 1 / 2]\<rparr>)],
      ocular = 1, scene = scene0, points = default_points,
      model = Map.empty, model_updated = False\<rparr>"

text \<open>
  A range model with a target of one triangle and a laser of projection depth 0, whose
  projection is empty; no triangle is ever hit, nothing occludes the laser, and the
  coverage of any profile is one directional point of degree 1/2.
\<close>

definition normal0 :: "vec \<Rightarrow> error + vec" where
  "normal0 v =
     (case v of (x, y, z) \<Rightarrow>
        if sqrt (x ^ 2 + y ^ 2 + z ^ 2) = 0 then Inl ZeroDivisionError
        else Inr (x / sqrt (x ^ 2 + y ^ 2 + z ^ 2), y / sqrt (x ^ 2 + y ^ 2 + z ^ 2),
                  z / sqrt (x ^ 2 + y ^ 2 + z ^ 2)))"

definition collaborators0 :: "(string, unit, vec) collaborators" where
  "collaborators0 =
     \<lparr>geom = shift_geometry,
      normal = normal0,
      intersection = (\<lambda>P t a b. None),
      laser_occluded = (\<lambda>s v l. False),
      model_coverage = (\<lambda>s t sub. Inr [(DirectionalPoint 0 0 1 pi 0, 1 / 2)])\<rparr>"

definition rangemodel0 :: "(string, vec) RangeModel" where
  "rangemodel0 =
     \<lparr>objects =
        [(''T'', \<lparr>obj_pose = (0, 0, 0),
                  triangles = [((0, 0, 0), (1, 0, 0), (0, 1, 0))],
                  line_laser = None\<rparr>),
         (''L'', \<lparr>obj_pose = (0, 0, 0), triangles = [], line_laser = Some (1, 0)\<rparr>)],
      lasers = {''L''}\<rparr>"

definition task0 :: "(unit, vec) Task" where
  "task0 = \<lparr>params = (), task_points = [], mount = None\<rparr>"

section \<open>Properties\<close>

subsection \<open>The concrete inputs, evaluated\<close>

lemma camera0_simps:
  "Cv camera0 = [\<lparr>kernel = (- 1 / 2, 1 / 2), support = (- 1, 1)\<rparr>,
            \<lparr>kernel = (- 1 / 2, 1 / 2), support = (- 1, 1)\<rparr>]"
  "Cr camera0 = \<lparr>kernel = (0, 10), support = (0, 20)\<rparr>"
  "Cf camera0 = \<lparr>kernel = (1, 5), support = (0, 8)\<rparr>"
  "zeta camera0 = 1" "pose camera0 = (0, 0, 0)" "inscene camera0 = None"
  by (simp_all add: camera0_def)

lemma shift_geometry_simps:
  "pose_neg shift_geometry (a, b, c) = (- a, - b, - c)"
  "pose_add shift_geometry (a, b, c) (x, y, z) = (a + x, b + y, c + z)"
  "pose_of_T shift_geometry v = v"
  "pose_T shift_geometry P = P"
  "map_xyz shift_geometry (a, b, c) (x, y, z) = (x + a, y + b, z + c)"
  "map_dir shift_geometry P d = d"
  by (simp_all add: shift_geometry_def)

lemma network0_simps:
  "cameras network0 = [(''A'', camera0\<lparr>inscene := Some Map.empty\<rparr>)]"
  "ocular network0 = 1" "scene network0 = scene0" "points network0 = default_points"
  "model network0 = Map.empty" "model_updated network0 = False"
  by (simp_all add: network0_def)


lemma network2_simps:
  "cameras network2 =
        [(''A'', camera0\<lparr>inscene := Some [Point 0 0 2 \<mapsto> 4 / 5]\<rparr>),
         (''B'', camera0\<lparr>pose := (1, 0, 0),
                         inscene := Some [Point 0 0 2 \<mapsto> 3 / 5, Point 0 0 3 \<mapsto> 1 / 2]\<rparr>)]"
  "ocular network2 = 1"
  by (simp_all add: network2_def)

lemma collaborators0_simps:
  "geom collaborators0 = shift_geometry" "normal collaborators0 = normal0"
  "intersection collaborators0 = (\<lambda>P t a b. None)"
  "laser_occluded collaborators0 = (\<lambda>s v l. False)"
  "model_coverage collaborators0 = (\<lambda>s t sub. Inr [(DirectionalPoint 0 0 1 pi 0, 1 / 2)])"
  by (simp_all add: collaborators0_def)

lemma rangemodel0_simps:
  "objects rangemodel0 =
        [(''T'', \<lparr>obj_pose = (0, 0, 0),
                  triangles = [((0, 0, 0), (1, 0, 0), (0, 1, 0))],
                  line_laser = None\<rparr>),
         (''L'', \<lparr>obj_pose = (0, 0, 0), triangles = [], line_laser = Some (1, 0)\<rparr>)]"
  "lasers rangemodel0 = {''L''}"
  by (simp_all add: rangemodel0_def)

lemma task0_simps: "params task0 = ()" "task_points task0 = []" "mount task0 = None"
  by (simp_all add: task0_def)

lemma normal0_x: "normal0 (1, 0, 0) = Inr (1, 0, 0)"
  by (simp add: normal0_def)

lemma py_int_zero: "py_int 0 = 0"
  by (simp add: py_int_def)

lemma two_steps: "[0 ..< nat (py_int 2)] = [0, Suc 0]"
  by (simp add: py_int_def upt_rec)

subsection \<open>Camera.mu\<close>

lemma tfn_mu_ge0: "0 \<le> tfn_mu t v"
  by (simp add: tfn_mu_def)

lemma tfn_mu_le1: "tfn_mu t v \<le> 1"
  by (simp add: tfn_mu_def)

lemma fold_min_bounds:
  "\<forall>y\<in>set xs. 0 \<le> y \<and> y \<le> 1 \<Longrightarrow> 0 \<le> (x::real) \<Longrightarrow> x \<le> 1 \<Longrightarrow>
     0 \<le> fold min xs x \<and> fold min xs x \<le> 1"
  by (induction xs arbitrary: x) (auto simp: min_def)

lemma py_min_unit:
  assumes "xs \<noteq> []" and "\<forall>y\<in>set xs. 0 \<le> y \<and> y \<le> 1"
  shows "\<exists>v. py_min xs = Inr v \<and> 0 \<le> v \<and> v \<le> 1"
  using assms by (cases xs) (auto dest: fold_min_bounds)

lemma mu_v_unit:
  assumes "Cv c \<noteq> []"
  shows "\<exists>v. mu_v c cp = Inr v \<and> 0 \<le> v \<and> v \<le> 1"
proof (cases "pz cp = 0")
  case True
  then show ?thesis using assms by (simp add: mu_v_def)
next
  case False
  have "\<exists>v. py_min (map (\<lambda>t. tfn_mu t (px cp / pz cp)) (Cv c)) = Inr v \<and> 0 \<le> v \<and> v \<le> 1"
    by (rule py_min_unit) (use assms in \<open>auto simp: tfn_mu_ge0 tfn_mu_le1\<close>)
  then show ?thesis using False by (simp add: mu_v_def)
qed

lemma mu_d_unit:
  assumes "zeta c \<noteq> 0 \<or> \<not> is_directional cp"
  shows "\<exists>d. mu_d c cp = Inr d \<and> 0 \<le> d \<and> d \<le> 1"
  using assms by (cases cp) auto

lemma mu_d_plain: "\<not> is_directional cp \<Longrightarrow> mu_d c cp = Inr 1"
  by (cases cp) auto

lemma pose_map_directional: "is_directional (pose_map G P p) = is_directional p"
  by (cases p) (auto split: prod.splits)

lemma prod4_unit:
  fixes a b c d :: real
  assumes "0 \<le> a" "a \<le> 1" "0 \<le> b" "b \<le> 1" "0 \<le> c" "c \<le> 1" "0 \<le> d" "d \<le> 1"
  shows "0 \<le> a * b * c * d \<and> a * b * c * d \<le> 1"
proof -
  have ab: "0 \<le> a * b" "a * b \<le> 1" using assms by (auto intro: mult_le_one)
  have abc: "0 \<le> a * b * c" "a * b * c \<le> 1" using ab assms by (auto intro: mult_le_one)
  show ?thesis using abc assms by (auto intro: mult_le_one)
qed

lemma Camera_mu_returns:
  assumes "Cv c \<noteq> []" and "zeta c \<noteq> 0 \<or> \<not> is_directional point"
  shows "\<exists>v d. mu_v c (pose_map G (pose_neg G (pose c)) point) = Inr v
           \<and> mu_d c (pose_map G (pose_neg G (pose c)) point) = Inr d
           \<and> Camera_mu G c point =
               Inr (v * mu_r c (pose_map G (pose_neg G (pose c)) point)
                      * mu_f c (pose_map G (pose_neg G (pose c)) point) * d)
           \<and> 0 \<le> v * mu_r c (pose_map G (pose_neg G (pose c)) point)
                      * mu_f c (pose_map G (pose_neg G (pose c)) point) * d
           \<and> v * mu_r c (pose_map G (pose_neg G (pose c)) point)
                      * mu_f c (pose_map G (pose_neg G (pose c)) point) * d \<le> 1"
proof -
  define cp where "cp = pose_map G (pose_neg G (pose c)) point"
  obtain v where v: "mu_v c cp = Inr v" "0 \<le> v" "v \<le> 1"
    using mu_v_unit [OF assms(1)] by blast
  have "zeta c \<noteq> 0 \<or> \<not> is_directional cp"
    using assms(2) by (simp add: cp_def pose_map_directional)
  then obtain d where d: "mu_d c cp = Inr d" "0 \<le> d" "d \<le> 1"
    using mu_d_unit by blast
  have r: "0 \<le> mu_r c cp" "mu_r c cp \<le> 1"
    by (simp_all add: mu_r_def tfn_mu_ge0 tfn_mu_le1)
  have f: "0 \<le> mu_f c cp" "mu_f c cp \<le> 1"
    by (simp_all add: mu_f_def tfn_mu_ge0 tfn_mu_le1)
  have "Camera_mu G c point = Inr (v * mu_r c cp * mu_f c cp * d)"
    using v(1) d(1) by (simp add: Camera_mu_def cp_def Let_def)
  moreover have "0 \<le> v * mu_r c cp * mu_f c cp * d \<and> v * mu_r c cp * mu_f c cp * d \<le> 1"
    by (rule prod4_unit) (use v d r f in auto)
  ultimately show ?thesis using v(1) d(1) unfolding cp_def by blast
qed

text \<open>
  C1. For a camera as its constructor leaves it (a non-empty \<open>Cv\<close>) with a nonzero
  \<open>zeta\<close>, and every point, \<open>Camera.mu\<close> maps the point by the inverse of the camera's
  pose and returns the product of the four terms it computes there; the product lies in
  the unit interval, and the direction term of a plain point is 1.
\<close>

theorem Camera_mu_product_in_unit_interval:
  assumes "Cv c \<noteq> []" and "zeta c \<noteq> 0"
  shows "\<exists>v d. mu_v c (pose_map G (pose_neg G (pose c)) point) = Inr v
           \<and> mu_d c (pose_map G (pose_neg G (pose c)) point) = Inr d
           \<and> Camera_mu G c point =
               Inr (v * mu_r c (pose_map G (pose_neg G (pose c)) point)
                      * mu_f c (pose_map G (pose_neg G (pose c)) point) * d)
           \<and> 0 \<le> v * mu_r c (pose_map G (pose_neg G (pose c)) point)
                      * mu_f c (pose_map G (pose_neg G (pose c)) point) * d
           \<and> v * mu_r c (pose_map G (pose_neg G (pose c)) point)
                      * mu_f c (pose_map G (pose_neg G (pose c)) point) * d \<le> 1
           \<and> (\<not> is_directional point \<longrightarrow> d = 1)"
proof -
  obtain v d where *: "mu_v c (pose_map G (pose_neg G (pose c)) point) = Inr v"
    "mu_d c (pose_map G (pose_neg G (pose c)) point) = Inr d"
    "Camera_mu G c point =
               Inr (v * mu_r c (pose_map G (pose_neg G (pose c)) point)
                      * mu_f c (pose_map G (pose_neg G (pose c)) point) * d)"
    "0 \<le> v * mu_r c (pose_map G (pose_neg G (pose c)) point)
                      * mu_f c (pose_map G (pose_neg G (pose c)) point) * d"
    "v * mu_r c (pose_map G (pose_neg G (pose c)) point)
                      * mu_f c (pose_map G (pose_neg G (pose c)) point) * d \<le> 1"
    using Camera_mu_returns [of c point G] assms by blast
  have "\<not> is_directional point \<longrightarrow> d = 1"
    using *(2) mu_d_plain [of "pose_map G (pose_neg G (pose c)) point" c]
    by (auto simp: pose_map_directional)
  with * show ?thesis by blast
qed

text \<open>The theorem at \<open>camera0\<close> and a point on the ramp of the visibility number.\<close>

theorem Camera_mu_product_in_unit_interval_witness:
  "Camera_mu shift_geometry camera0 (Point (3 / 2) 0 2) = Inr (1 / 2)
   \<and> (\<exists>v d. mu_v camera0 (Point (3 / 2) 0 2) = Inr v \<and> mu_d camera0 (Point (3 / 2) 0 2) = Inr d
        \<and> d = 1 \<and> v * mu_r camera0 (Point (3 / 2) 0 2) * mu_f camera0 (Point (3 / 2) 0 2) * d = 1 / 2)"
  using Camera_mu_product_in_unit_interval [of camera0 shift_geometry "Point (3 / 2) 0 2"]
  by (auto simp add: camera0_simps shift_geometry_simps Camera_mu_def mu_v_def mu_r_def mu_f_def
      tfn_mu_def)

text \<open>
  C2. The claim has the vertical number of \<open>Cv\<close> evaluated at \<open>y / z\<close>. The source
  evaluates both numbers at \<open>x / z\<close>: at the point (0, 10, 1) the visibility term of
  \<open>camera0\<close> is 1, while the minimum of the horizontal number at \<open>x / z\<close> and the
  vertical number at \<open>y / z\<close> is 0.
\<close>

theorem mu_v_reads_x_for_both_axes:
  "mu_v camera0 (Point 0 10 1) = Inr 1
   \<and> min (tfn_mu (Cv camera0 ! 0) (px (Point 0 10 1) / pz (Point 0 10 1)))
         (tfn_mu (Cv camera0 ! 1) (py (Point 0 10 1) / pz (Point 0 10 1))) = 0"
  by (simp add: mu_v_def camera0_simps tfn_mu_def)

text \<open>The visibility term does not depend on the \<open>y\<close> coordinate at all.\<close>

lemma mu_v_ignores_y: "mu_v c (Point x y z) = mu_v c (Point x y' z)"
  by (simp add: mu_v_def)

text \<open>
  C8, as amended. For a camera with a non-empty \<open>Cv\<close>, and a point that is plain or a
  \<open>zeta\<close> that is not zero, \<open>Camera.mu\<close> returns a value; the visibility term is 0 when
  the camera-frame \<open>z\<close> is zero, \<open>terma\<close> is 1 when \<open>r\<close> is zero and \<open>termb\<close> is
  \<open>pi / 2\<close> when \<open>z\<close> is zero.
\<close>

theorem Camera_mu_zero_divisors:
  assumes "Cv c \<noteq> []" and "zeta c \<noteq> 0 \<or> \<not> is_directional point"
  shows "(\<exists>m. Camera_mu G c point = Inr m)
         \<and> (pz (pose_map G (pose_neg G (pose c)) point) = 0 \<longrightarrow>
              mu_v c (pose_map G (pose_neg G (pose c)) point) = Inr 0)
         \<and> (sqrt (x ^ 2 + y ^ 2) = 0 \<longrightarrow> terma x y eta = 1)
         \<and> (z = 0 \<longrightarrow> termb x y z = pi / 2)"
proof -
  have "\<exists>m. Camera_mu G c point = Inr m"
    using Camera_mu_returns [OF assms, of G] by blast
  moreover have "pz (pose_map G (pose_neg G (pose c)) point) = 0 \<longrightarrow>
              mu_v c (pose_map G (pose_neg G (pose c)) point) = Inr 0"
    using assms(1) by (simp add: mu_v_def)
  moreover have "sqrt (x ^ 2 + y ^ 2) = 0 \<longrightarrow> terma x y eta = 1"
    by (simp add: terma_def Let_def)
  moreover have "z = 0 \<longrightarrow> termb x y z = pi / 2"
    by (simp add: termb_def)
  ultimately show ?thesis by blast
qed

text \<open>The theorem at a directional point at the camera's origin, where all three guards fire.\<close>

theorem Camera_mu_zero_divisors_witness:
  "Camera_mu shift_geometry camera0 (DirectionalPoint 0 0 0 pi 0) = Inr 0
   \<and> mu_v camera0 (DirectionalPoint 0 0 0 pi 0) = Inr 0
   \<and> terma 0 0 0 = 1 \<and> termb 0 0 0 = pi / 2"
  using Camera_mu_zero_divisors [of camera0 "DirectionalPoint 0 0 0 pi 0" shift_geometry 0 0 0 0]
  by (auto simp add: camera0_simps shift_geometry_simps Camera_mu_def mu_v_def mu_r_def mu_f_def
      tfn_mu_def terma_def termb_def)

text \<open>
  C8 as stated fails: with \<open>zeta = 0\<close> the division of the direction term raises
  \<open>ZeroDivisionError\<close> for a directional point, here one whose \<open>z\<close> and \<open>r\<close> are zero.
\<close>

theorem Camera_mu_zeta_zero_raises:
  "Camera_mu shift_geometry (camera0\<lparr>zeta := 0\<rparr>) (DirectionalPoint 0 0 0 pi 0)
     = Inl ZeroDivisionError"
  by (simp add: camera0_simps shift_geometry_simps Camera_mu_def mu_v_def)

subsection \<open>The multi-camera network\<close>

text \<open>
  C3. The claim has \<open>MultiCamera.mu\<close> return the maximum over the combinations for a
  point that is not a key of the model. On a network with enough cameras and an empty
  model the source raises \<open>NameError\<close>.
\<close>

theorem MultiCamera_mu_fallback_NameError:
  "int (length (cameras network0)) \<ge> ocular network0
   \<and> Point 0 0 2 \<notin> dom (model network0)
   \<and> MultiCamera_mu network0 (Point 0 0 2) = Inl NameError"
  by (simp add: MultiCamera_mu_def network0_simps)

lemma mu_d_inscene_update [simp]: "mu_d (cam\<lparr>inscene := f\<rparr>) cp = mu_d cam cp"
  by (cases cp) simp_all

lemma mu_v_inscene_update [simp]: "mu_v (cam\<lparr>inscene := f\<rparr>) cp = mu_v cam cp"
  by (simp add: mu_v_def)

lemma mu_r_inscene_update [simp]: "mu_r (cam\<lparr>inscene := f\<rparr>) cp = mu_r cam cp"
  by (simp add: mu_r_def)

lemma mu_f_inscene_update [simp]: "mu_f (cam\<lparr>inscene := f\<rparr>) cp = mu_f cam cp"
  by (simp add: mu_f_def)

lemma Camera_mu_inscene_update [simp]:
  "Camera_mu G (cam\<lparr>inscene := f\<rparr>) p = Camera_mu G cam p"
  by (simp add: Camera_mu_def cong: sum.case_cong)

lemma inscene_spec_inscene_update [simp]:
  "inscene_spec G sc ps (cam\<lparr>inscene := f\<rparr>) = inscene_spec G sc ps cam"
  by (simp add: inscene_spec_def cong: sum.case_cong if_cong)



lemma dict_get_setitem [simp]: "dict_get (dict_setitem k v d) k = Some v"
  by (induction d) auto

lemma dict_setitem_twice [simp]:
  "dict_setitem k v' (dict_setitem k v d) = dict_setitem k v' d"
  by (induction d) auto

lemma dict_setitem_same: "dict_get d k = Some v \<Longrightarrow> dict_setitem k v d = d"
  by (induction d) (auto split: if_splits)


lemma set_set_add [simp]: "set (set_add p ps) = insert p (set ps)"
  by (auto simp: set_add_def)












text \<open>
  C5. The claim has \<open>add_point\<close> mark the model dirty. After \<open>update_model\<close> on
  \<open>network0\<close> the flag \<open>model_updated\<close> is set; \<open>add_point\<close> then puts the point into
  the in-scene set of camera A and the flag is still set, with the point missing from
  the model.
\<close>

theorem add_point_leaves_model_updated:
  "(\<exists>s1 h2 s2. update_model network0 = (Inr (), s1) \<and> model_updated s1
      \<and> add_point shift_geometry store0 s1 (Point 0 0 2) = (Inr (), h2, s2)
      \<and> model_updated s2
      \<and> (\<exists>cam f. dict_get (cameras s2) ''A'' = Some cam \<and> inscene cam = Some f
            \<and> f (Point 0 0 2) = Some 1)
      \<and> model s2 (Point 0 0 2) = None)"
  by (simp add: update_model_def add_point_def network0_simps keys_def inscene_of_def
      Camera_mu_def camera0_simps shift_geometry_simps mu_v_def mu_r_def mu_f_def tfn_mu_def
      covers_def scene0_def FuzzySet_union_def FuzzySet_of_def FuzzySet_mu_def set_add_def)

text \<open>
  Whatever the network and the point, \<open>add_point\<close> leaves \<open>model_updated\<close> and the
  model as they were.
\<close>

theorem add_point_keeps_model_updated:
  "model_updated (snd (snd (add_point G h s p))) = model_updated s
   \<and> model (snd (snd (add_point G h s p))) = model s"
  by (simp add: add_point_def split: prod.splits)

text \<open>
  The two other transitions of the flag: an item assignment that returns leaves
  \<open>model_updated\<close> clear, an \<open>update_model\<close> that returns leaves it set.
\<close>

theorem setitem_and_update_model_set_the_flag:
  "(fst (setitem G h s key val) = Inr () \<longrightarrow> \<not> model_updated (snd (setitem G h s key val)))
   \<and> (fst (update_model s) = Inr () \<longrightarrow> model_updated (snd (update_model s)))"
  by (auto simp: setitem_def update_inscene_def update_model_def
      split: pyobject.splits option.splits sum.splits)

theorem setitem_and_update_model_set_the_flag_witness:
  "fst (setitem shift_geometry store0 network0 ''B''
          (CameraObject camera0 :: (vec, nat) pyobject)) = Inr ()
   \<and> \<not> model_updated
         (snd (setitem shift_geometry store0 network0 ''B''
                 (CameraObject camera0 :: (vec, nat) pyobject)))
   \<and> fst (update_model network0) = Inr ()
   \<and> model_updated (snd (update_model network0))"
proof -
  have a: "fst (setitem shift_geometry store0 network0 ''B''
                  (CameraObject camera0 :: (vec, nat) pyobject)) = Inr ()"
    by (simp add: setitem_def update_inscene_def network0_simps store0_def)
  have b: "fst (update_model network0) = Inr ()"
    by (simp add: update_model_def network0_simps keys_def inscene_of_def)
  show ?thesis
    using a b setitem_and_update_model_set_the_flag
      [of shift_geometry store0 network0 "''B''" "CameraObject camera0 :: (vec, nat) pyobject"]
    by blast
qed

text \<open>
  C6. The constructor raises \<open>ValueError\<close> for \<open>ocular < 1\<close>; \<open>update_model\<close> and \<open>mu\<close>
  raise \<open>ValueError\<close> when the network has fewer cameras than \<open>ocular\<close>, and
  \<open>update_model\<close> then leaves the network as it was.
\<close>

theorem too_few_cameras_ValueError:
  "(n < 1 \<longrightarrow> MultiCamera_init n sc ps = Inl ValueError)
   \<and> (int (length (cameras s)) < ocular s \<longrightarrow>
        update_model s = (Inl ValueError, s) \<and> MultiCamera_mu s p = Inl ValueError)"
  by (simp add: MultiCamera_init_def update_model_def MultiCamera_mu_def)

text \<open>The theorem at \<open>ocular = 0\<close> and at a one-camera network asked for two.\<close>

theorem too_few_cameras_ValueError_witness:
  "(MultiCamera_init 0 scene0 None :: error + (string, vec) MultiCamera) = Inl ValueError
   \<and> update_model (network0\<lparr>ocular := 2\<rparr>) = (Inl ValueError, network0\<lparr>ocular := 2\<rparr>)
   \<and> MultiCamera_mu (network0\<lparr>ocular := 2\<rparr>) (Point 0 0 2) = Inl ValueError"
  using too_few_cameras_ValueError [of 0 scene0 None "network0\<lparr>ocular := 2\<rparr>" "Point 0 0 2"]
  by (simp add: network0_simps)

lemma combinations_one: "combinations xs (Suc 0) = map (\<lambda>x. [x]) xs"
  by (induction xs) simp_all

lemma submodels_singletons:
  assumes "\<forall>k\<in>set ks. \<exists>f. inscene_of d k = Inr f"
  shows "submodels d (map (\<lambda>k. [k]) ks) = Inr (map (inscene_at d) ks)"
  using assms by (induction ks) (auto simp: inscene_at_def)

lemma FuzzySet_mu_union:
  "FuzzySet_mu (FuzzySet_union a b) p = max (FuzzySet_mu a p) (FuzzySet_mu b p)"
  by (simp add: FuzzySet_union_def FuzzySet_mu_def split: option.splits)

lemma FuzzySet_union_None:
  "FuzzySet_union a b p = None \<longleftrightarrow> a p = None \<and> b p = None"
  by (simp add: FuzzySet_union_def)

lemma FuzzySet_some_mu: "f p \<noteq> None \<Longrightarrow> f p = Some (FuzzySet_mu f p)"
  by (auto simp: FuzzySet_mu_def)

lemma Max_insert_max:
  fixes a b :: real
  assumes "finite S"
  shows "Max (insert (max a b) S) = max a (Max (insert b S))"
proof (cases "S = {}")
  case True
  then show ?thesis by simp
next
  case False
  then show ?thesis using assms by (simp add: max.assoc)
qed

lemma fold_union_apply:
  "fold (\<lambda>sub m. FuzzySet_union m sub) subs acc p =
     (if acc p = None \<and> (\<forall>f\<in>set subs. f p = None) then None
      else Some (Max (insert (FuzzySet_mu acc p) ((\<lambda>f. FuzzySet_mu f p) ` set subs))))"
proof (induction subs arbitrary: acc)
  case Nil
  then show ?case by (auto simp: FuzzySet_mu_def)
next
  case (Cons f subs)
  show ?case
    by (simp add: Cons.IH FuzzySet_mu_union FuzzySet_union_None Max_insert_max)
qed

text \<open>
  C7. With \<open>ocular = 1\<close>, at least one camera, and every camera carrying an in-scene
  set of non-negative degrees, \<open>update_model\<close> returns and leaves as model the union of
  the in-scene sets: a point is a key of the model when it is a key of some camera's
  set, and its degree is the maximum of the cameras' degrees.
\<close>

theorem update_model_monocular_union:
  assumes "ocular s = 1" and "cameras s \<noteq> []"
    and "\<forall>k\<in>set (keys (cameras s)). \<exists>f. inscene_of (cameras s) k = Inr f
            \<and> (\<forall>p m. f p = Some m \<longrightarrow> 0 \<le> m)"
  shows "\<exists>s'. update_model s = (Inr (), s') \<and> cameras s' = cameras s \<and> model_updated s'
           \<and> (\<forall>p. model s' p =
                 (if \<forall>k\<in>set (keys (cameras s)). inscene_at (cameras s) k p = None then None
                  else Some (Max ((\<lambda>k. FuzzySet_mu (inscene_at (cameras s) k) p)
                                   ` set (keys (cameras s))))))"
proof -
  let ?ks = "keys (cameras s)"
  let ?subs = "map (inscene_at (cameras s)) ?ks"
  define s' where
    "s' = s\<lparr>model := fold (\<lambda>sub m. FuzzySet_union m sub) ?subs Map.empty, model_updated := True\<rparr>"
  have ks: "?ks \<noteq> []" using assms(2) by (simp add: keys_def)
  have len: "\<not> int (length (cameras s)) < ocular s"
    using assms(1,2) by (cases "cameras s") simp_all
  have "\<forall>k\<in>set ?ks. \<exists>f. inscene_of (cameras s) k = Inr f"
    using assms(3) by blast
  then have "submodels (cameras s) (map (\<lambda>k. [k]) ?ks) = Inr ?subs"
    by (rule submodels_singletons)
  then have subs: "submodels (cameras s) (combinations ?ks (nat (ocular s))) = Inr ?subs"
    using assms(1) by (simp add: combinations_one)
  have um: "update_model s = (Inr (), s')"
    using len subs assms(1) by (simp add: update_model_def s'_def)
  have nonneg: "\<And>k p. k \<in> set ?ks \<Longrightarrow> 0 \<le> FuzzySet_mu (inscene_at (cameras s) k) p"
  proof -
    fix k p assume "k \<in> set ?ks"
    then obtain f where f: "inscene_of (cameras s) k = Inr f" "\<forall>p m. f p = Some m \<longrightarrow> 0 \<le> m"
      using assms(3) by blast
    then show "0 \<le> FuzzySet_mu (inscene_at (cameras s) k) p"
      by (auto simp: inscene_at_def FuzzySet_mu_def split: option.splits)
  qed
  have "model s' p =
          (if \<forall>k\<in>set ?ks. inscene_at (cameras s) k p = None then None
           else Some (Max ((\<lambda>k. FuzzySet_mu (inscene_at (cameras s) k) p) ` set ?ks)))" for p
  proof -
    let ?S = "(\<lambda>k. FuzzySet_mu (inscene_at (cameras s) k) p) ` set ?ks"
    have fin: "finite ?S" "?S \<noteq> {}" using ks by auto
    have "0 \<le> Max ?S"
    proof -
      obtain k where "k \<in> set ?ks" using ks by (cases ?ks) auto
      then have "0 \<le> FuzzySet_mu (inscene_at (cameras s) k) p"
        and "FuzzySet_mu (inscene_at (cameras s) k) p \<le> Max ?S"
        using nonneg fin by auto
      then show ?thesis by linarith
    qed
    then have "Max (insert 0 ?S) = Max ?S"
      using fin by (simp add: max_def)
    moreover have "(\<lambda>f. FuzzySet_mu f p) ` set ?subs = ?S"
      by (simp add: image_image)
    ultimately show ?thesis
      by (simp add: s'_def fold_union_apply FuzzySet_mu_def)
  qed
  with um show ?thesis by (intro exI [of _ s']) (simp add: s'_def)
qed

text \<open>The theorem on two cameras whose in-scene sets overlap in one point.\<close>

theorem update_model_monocular_union_witness:
  "\<exists>s'. update_model network2 = (Inr (), s')
      \<and> model s' (Point 0 0 2) = Some (4 / 5)
      \<and> model s' (Point 0 0 3) = Some (1 / 2)
      \<and> model s' (Point 0 0 4) = None"
proof -
  have pre: "\<forall>k\<in>set (keys (cameras network2)). \<exists>f. inscene_of (cameras network2) k = Inr f
            \<and> (\<forall>p m. f p = Some m \<longrightarrow> 0 \<le> m)"
    by (auto simp: network2_simps keys_def inscene_of_def split: if_splits)
  from update_model_monocular_union [OF _ _ pre]
  obtain s' where *: "update_model network2 = (Inr (), s')"
    "\<forall>p. model s' p =
        (if \<forall>k\<in>set (keys (cameras network2)). inscene_at (cameras network2) k p = None
         then None
         else Some (Max ((\<lambda>k. FuzzySet_mu (inscene_at (cameras network2) k) p)
                          ` set (keys (cameras network2)))))"
    by (auto simp: network2_simps)
  have "model s' (Point 0 0 2) = Some (4 / 5)"
    "model s' (Point 0 0 3) = Some (1 / 2)"
    "model s' (Point 0 0 4) = None"
    by (simp_all add: * network2_simps keys_def inscene_at_def inscene_of_def FuzzySet_mu_def)
  with *(1) show ?thesis by blast
qed

text \<open>
  C10. Assigning a value that is not a camera raises \<open>ValueError\<close> and leaves the
  network, its cameras and their in-scene sets included, as it was.
\<close>

theorem setitem_rejects_non_camera:
  assumes "\<not> isinstance_Camera v"
  shows "setitem G h s k v = (Inl ValueError, s)"
  using assms by (cases v) (simp_all add: setitem_def)

text \<open>The theorem at a number assigned under a new key.\<close>

theorem setitem_rejects_non_camera_witness:
  "setitem shift_geometry store0 network0 ''B'' (OtherObject (0::nat))
     = (Inl ValueError, network0)"
  using setitem_rejects_non_camera
    [of "OtherObject (0::nat)" shift_geometry store0 network0 "''B''"]
  by simp

subsection \<open>The range imaging model\<close>

lemma sweep_frame:
  assumes "sweep E s tp laser target lpitch tpitch taxis gv original_pose sub steps acc
             = Some (r, s')"
    and "dict_get (objects s) target = Some tobj"
  shows "\<exists>P. s' = s\<lparr>objects := dict_setitem target (tobj\<lparr>obj_pose := P\<rparr>) (objects s)\<rparr>"
  using assms
proof (induction steps arbitrary: s acc tobj)
  case Nil
  then have "s' = s" by simp
  moreover have "dict_setitem target (tobj\<lparr>obj_pose := obj_pose tobj\<rparr>) (objects s) = objects s"
    using Nil.prems(2) by (simp add: dict_setitem_same)
  ultimately show ?case by (intro exI [of _ "obj_pose tobj"]) simp
next
  case (Cons i steps)
  define P1 where "P1 = pose_add (geom E) original_pose
                            (pose_of_T (geom E) (scale (tpitch * real i - gv) taxis))"
  define s1 where "s1 = s\<lparr>objects := dict_setitem target (tobj\<lparr>obj_pose := P1\<rparr>) (objects s)\<rparr>"
  have get1: "dict_get (objects s1) target = Some (tobj\<lparr>obj_pose := P1\<rparr>)"
    by (simp add: s1_def)
  show ?case
  proof (cases "project E s1 tp laser target lpitch")
    case None
    then show ?thesis
      using Cons.prems by (simp add: set_absolute_pose_def s1_def P1_def Let_def)
  next
    case (Some pr)
    show ?thesis
    proof (cases pr)
      case (Inl e)
      then have "s' = s1"
        using Cons.prems Some by (simp add: set_absolute_pose_def s1_def P1_def Let_def)
      then show ?thesis by (auto simp: s1_def)
    next
      case (Inr prof_task)
      show ?thesis
      proof (cases "model_coverage E s1 prof_task sub")
        case (Inl e)
        then have "s' = s1"
          using Cons.prems Some Inr
          by (simp add: set_absolute_pose_def s1_def P1_def Let_def)
        then show ?thesis by (auto simp: s1_def)
      next
        case cov: (Inr prof_coverage)
        define acc' where "acc' = accumulate (geom E)
            (pose_add (geom E) (pose_neg (geom E) P1) original_pose) prof_coverage acc"
        have "sweep E s1 tp laser target lpitch tpitch taxis gv original_pose sub steps acc'
                 = Some (r, s')"
          using Cons.prems Some Inr cov
          by (simp add: set_absolute_pose_def s1_def P1_def acc'_def Let_def)
        from Cons.IH [OF this get1]
        obtain P where "s' = s1\<lparr>objects := dict_setitem target
                             (tobj\<lparr>obj_pose := P1, obj_pose := P\<rparr>) (objects s1)\<rparr>"
          by auto
        then show ?thesis by (auto simp: s1_def)
      qed
    qed
  qed
qed

lemma project_loop_done:
  "\<not> x < width \<Longrightarrow>
     project_loop E s lobj fan depth laser target width lpitch x pts = Some (Inr pts)"
  by (subst project_loop.simps) simp

text \<open>
  C9, as amended. A call of \<open>range_coverage\<close> that returns normally leaves the model, the
  target's pose included, as it was before the call; a call with a transport style
  other than \<open>linear\<close> raises and leaves the model as it was.
\<close>

theorem range_coverage_restores_pose:
  "(range_coverage E s task laser target lpitch tpitch taxis tstyle sub = Some (Inr res, s')
      \<longrightarrow> s' = s)
   \<and> (tstyle \<noteq> ''linear'' \<longrightarrow>
        (\<exists>e. range_coverage E s task laser target lpitch tpitch taxis tstyle sub
                = Some (Inl e, s)))"
proof (intro conjI impI)
  assume rc: "range_coverage E s task laser target lpitch tpitch taxis tstyle sub
                = Some (Inr res, s')"
  then obtain tobj where get: "dict_get (objects s) target = Some tobj"
    by (auto simp: range_coverage_def split: option.splits)
  from rc get obtain axis lv gv acc s1 tobj1 where
    sw: "sweep E s (params task) laser target lpitch tpitch axis gv (obj_pose tobj) sub
           [0 ..< nat (py_int ((gv - lv) / tpitch))] ([], []) = Some (Inr acc, s1)"
    and get1: "dict_get (objects s1) target = Some tobj1"
    and s': "s' = s1\<lparr>objects := dict_setitem target
                        (set_absolute_pose tobj1 (obj_pose tobj)) (objects s1)\<rparr>"
    by (auto simp: range_coverage_def split: option.splits if_splits sum.splits prod.splits)
  from sweep_frame [OF sw get]
  obtain P where s1: "s1 = s\<lparr>objects := dict_setitem target (tobj\<lparr>obj_pose := P\<rparr>) (objects s)\<rparr>"
    by blast
  have "tobj1 = tobj\<lparr>obj_pose := P\<rparr>" using get1 s1 by simp
  then have "s' = s\<lparr>objects := dict_setitem target tobj (objects s)\<rparr>"
    using s' s1 by (simp add: set_absolute_pose_def)
  then show "s' = s" using get by (simp add: dict_setitem_same)
next
  assume "tstyle \<noteq> ''linear''"
  then show "\<exists>e. range_coverage E s task laser target lpitch tpitch taxis tstyle sub
                = Some (Inl e, s)"
    by (auto simp: range_coverage_def split: option.splits)
qed

text \<open>
  The theorem on a sweep of two steps, which returns the two profile points mapped back
  into the original frame, and on the rotary style.
\<close>

theorem range_coverage_restores_pose_witness:
  "range_coverage collaborators0 rangemodel0 task0 ''L'' ''T'' 1 (1 / 2) (1, 0, 0)
      ''linear'' None
     = Some (Inr ([(DirectionalPoint 1 0 1 pi 0, 1 / 2),
                   (DirectionalPoint (1 / 2) 0 1 pi 0, 1 / 2)],
                  \<lparr>params = (),
                   task_points = [(DirectionalPoint 1 0 1 pi 0, 1),
                                  (DirectionalPoint (1 / 2) 0 1 pi 0, 1)],
                   mount = None\<rparr>),
             rangemodel0)
   \<and> (\<exists>e. range_coverage collaborators0 rangemodel0 task0 ''L'' ''T'' 1 (1 / 2) (1, 0, 0)
             ''rotary'' None = Some (Inl e, rangemodel0))"
proof -
  let ?res = "([(DirectionalPoint 1 0 1 pi 0, 1 / 2),
                   (DirectionalPoint (1 / 2) 0 1 pi 0, 1 / 2)],
                  \<lparr>params = (),
                   task_points = [(DirectionalPoint 1 0 1 pi 0, 1),
                                  (DirectionalPoint (1 / 2) 0 1 pi 0, 1)],
                   mount = None :: vec SceneObject option\<rparr>)"
  have "\<exists>s'. range_coverage collaborators0 rangemodel0 task0 ''L'' ''T'' 1 (1 / 2) (1, 0, 0)
      ''linear'' None = Some (Inr ?res, s')"
    by (simp add: range_coverage_def rangemodel0_simps collaborators0_simps normal0_x
      mapped_vertices_def shift_geometry_simps two_steps project_def project_loop_done
      set_absolute_pose_def py_int_zero task0_simps)
  then obtain s' where ev:
    "range_coverage collaborators0 rangemodel0 task0 ''L'' ''T'' 1 (1 / 2) (1, 0, 0)
      ''linear'' None = Some (Inr ?res, s')" by blast
  have "s' = rangemodel0"
    using range_coverage_restores_pose
      [of collaborators0 rangemodel0 task0 "''L''" "''T''" 1 "1 / 2" "(1, 0, 0)" "''linear''"
          None ?res s'] ev
    by blast
  moreover have "\<exists>e. range_coverage collaborators0 rangemodel0 task0 ''L'' ''T'' 1 (1 / 2)
             (1, 0, 0) ''rotary'' None = Some (Inl e, rangemodel0)"
    using range_coverage_restores_pose
      [of collaborators0 rangemodel0 task0 "''L''" "''T''" 1 "1 / 2" "(1, 0, 0)" "''rotary''"
          None]
    by simp
  ultimately show ?thesis using ev by simp
qed

text \<open>
  C9 as stated fails: with an identifier that is not a laser, \<open>project\<close> raises
  \<open>KeyError\<close> in the first step of the sweep, after the target has been moved, and the
  target is left at the pose of that step.
\<close>

theorem range_coverage_error_leaves_target_displaced:
  "\<exists>s'. range_coverage collaborators0 rangemodel0 task0 ''X'' ''T'' 1 (1 / 2) (1, 0, 0)
            ''linear'' None = Some (Inl KeyError, s')
      \<and> map_option obj_pose (dict_get (objects s') ''T'') = Some (- 1, 0, 0)
      \<and> map_option obj_pose (dict_get (objects rangemodel0) ''T'') = Some (0, 0, 0)"
  by (simp add: range_coverage_def rangemodel0_simps collaborators0_simps normal0_x
      mapped_vertices_def shift_geometry_simps two_steps project_def
      set_absolute_pose_def)

end
